theory Spec2Isabelle
  imports Main
begin

section \<open>Strings as the handlers use them\<close>

text \<open>
  A JavaScript string is modelled as a \<open>string\<close>. The characters that
  \<open>String.prototype.trim\<close> removes are, among the codes a \<open>char\<close> can hold:
  tab, line feed, vertical tab, form feed, carriage return, space and the no-break space.
\<close>

definition js_whitespace :: "char \<Rightarrow> bool" where
  "js_whitespace c = (c \<in> set [CHR 0x09, CHR 0x0A, CHR 0x0B, CHR 0x0C, CHR 0x0D, CHR 0x20, CHR 0xA0])"

definition js_trim :: "string \<Rightarrow> string" where
  "js_trim s = rev (dropWhile js_whitespace (rev (dropWhile js_whitespace s)))"

text \<open>\<open>s.startsWith(p)\<close>.\<close>

definition startsWith :: "string \<Rightarrow> string \<Rightarrow> bool" where
  "startsWith s p = (take (length p) s = p)"

text \<open>\<open>s.split(c)\<close> for a one-character separator: never the empty list.\<close>

fun js_split :: "char \<Rightarrow> string \<Rightarrow> string list" where
  "js_split c [] = [[]]"
| "js_split c (x # xs) =
     (if x = c then [] # js_split c xs
      else (case js_split c xs of
              [] \<Rightarrow> [[x]]
            | y # ys \<Rightarrow> (x # y) # ys))"

text \<open>\<open>xs[i]\<close> on an array: \<open>undefined\<close> (here \<open>None\<close>) out of range.\<close>

definition js_index :: "'a list \<Rightarrow> nat \<Rightarrow> 'a option" where
  "js_index xs i = (if i < length xs then Some (xs ! i) else None)"

text \<open>What a template literal prints for a value that may be \<open>undefined\<close>.\<close>

definition js_str :: "string option \<Rightarrow> string" where
  "js_str v = (case v of None \<Rightarrow> ''undefined'' | Some s \<Rightarrow> s)"

text \<open>
  Truthiness of a \<open>string | null\<close>: \<open>null\<close> and the empty string are falsy.
  \<open>truthy_string v\<close> is the string when it is truthy.
\<close>

definition truthy_string :: "string option \<Rightarrow> string option" where
  "truthy_string v = (case v of None \<Rightarrow> None | Some u \<Rightarrow> if u = [] then None else Some u)"

section \<open>Data\<close>

text \<open>The pair \<open>{ base64, mimeType }\<close> that both converters resolve to.\<close>

record encoded =
  base64 :: "string option"
  mimeType :: string

text \<open>The SDK's \<open>Part\<close>, restricted to the two fields the program reads or writes.\<close>

record inline_blob =
  data :: "string option"
  inline_mimeType :: "string option"

record part =
  inlineData :: "inline_blob option"
  part_text :: "string option"

record content =
  parts :: "part list option"

record candidate =
  candidate_content :: "content option"

record response =
  candidates :: "candidate list option"

datatype modality = IMAGE | TEXT

record request =
  model :: string
  contents_parts :: "part list"
  responseModalities :: "modality list"

text \<open>A thrown value: an \<open>Error\<close> with its message, or anything else.\<close>

datatype thrown = ErrorObj string | NonError

text \<open>What a \<open>File\<close> is to the program: its declared type and what the reader yields.\<close>

record upload_file =
  file_type :: string
  file_data_url :: string

text \<open>The outcome of fetching a reference image and reading its blob.\<close>

record fetched =
  blob_type :: string
  blob_data_url :: string

datatype fetch_outcome = FetchRejected thrown | FetchResolved fetched

datatype service_outcome = ServiceRejected thrown | ServiceResolved response

text \<open>What a handler does to the outside world, in order.\<close>

datatype effect =
    Alert string
  | ConsoleError
  | Fetch string
  | GenerateContent request

text \<open>A child of the reference gallery: its \<open>src\<close> and whether its class list has \<open>selected\<close>.\<close>

record gallery_img =
  img_src :: string
  img_selected :: bool

text \<open>
  The module's two state variables and the properties of the page's elements that the
  handlers read or write. \<open>listeners\<close> records whether \<open>initializeEventListeners\<close> has run.
\<close>

record app =
  uploadedImage :: "encoded option"
  selectedReferenceImage :: "string option"
  referenceGallery :: "gallery_img list"
  promptInput_value :: string
  promptInput_disabled :: bool
  generateBtn_disabled :: bool
  loader_display :: string
  resultPlaceholder_display :: string
  resultImage_display :: string
  resultImage_src :: string
  errorMessage_display :: string
  errorMessage_textContent :: string
  downloadBtn_display :: string
  previewImage_src :: string
  previewImage_display :: string
  uploadPrompt_display :: string
  removeImageBtn_display :: string
  imageUploadInput_value :: string
  listeners :: bool

definition referenceImages :: "string list" where
  "referenceImages =
    [''https://storage.googleapis.com/maker-suite-media/user-prompt-images/style-transfer-clay.png'',
     ''https://storage.googleapis.com/maker-suite-media/user-prompt-images/style-transfer-gold.png'',
     ''https://storage.googleapis.com/maker-suite-media/user-prompt-images/style-transfer-mosaic.png'',
     ''https://storage.googleapis.com/maker-suite-media/user-prompt-images/style-transfer-origami.png'',
     ''https://storage.googleapis.com/maker-suite-media/user-prompt-images/style-transfer-pixel.png'',
     ''https://storage.googleapis.com/maker-suite-media/user-prompt-images/style-transfer-terracotta.png'',
     ''https://storage.googleapis.com/maker-suite-media/user-prompt-images/style-transfer-topiary.png'',
     ''https://storage.googleapis.com/maker-suite-media/user-prompt-images/style-transfer-wool.png'']"

section \<open>Helper functions\<close>

text \<open>\<open>(result as string).split(',')[1]\<close>, shared by both converters.\<close>

definition data_url_payload :: "string \<Rightarrow> string option" where
  "data_url_payload url = js_index (js_split (CHR '','') url) 1"

definition fileToGenerativePart :: "upload_file \<Rightarrow> encoded" where
  "fileToGenerativePart f =
     \<lparr>base64 = data_url_payload (file_data_url f), mimeType = file_type f\<rparr>"

text \<open>\<open>fetch\<close> or \<open>response.blob()\<close> may reject; the rejection propagates to the caller.\<close>

definition urlToGenerativePart :: "fetch_outcome \<Rightarrow> thrown + encoded" where
  "urlToGenerativePart out =
     (case out of
        FetchRejected e \<Rightarrow> Inl e
      | FetchResolved b \<Rightarrow>
          Inr \<lparr>base64 = data_url_payload (blob_data_url b), mimeType = blob_type b\<rparr>)"

definition updateUIState :: "app \<Rightarrow> app" where
  "updateUIState s = s\<lparr>generateBtn_disabled := (uploadedImage s = None)\<rparr>"

definition setLoading :: "bool \<Rightarrow> app \<Rightarrow> app" where
  "setLoading isLoading s =
     (if isLoading then
        s\<lparr>loader_display := ''block'',
          resultPlaceholder_display := ''none'',
          resultImage_display := ''none'',
          errorMessage_display := ''none'',
          downloadBtn_display := ''none'',
          generateBtn_disabled := True\<rparr>
      else
        updateUIState (s\<lparr>loader_display := ''none'', generateBtn_disabled := False\<rparr>))"

definition displayError :: "string \<Rightarrow> app \<Rightarrow> app" where
  "displayError message s =
     (setLoading False s)\<lparr>errorMessage_textContent := ''Error: '' @ message,
                           errorMessage_display := ''block''\<rparr>"

section \<open>Event handlers\<close>

text \<open>
  \<open>handleImageUpload\<close> checks the file's type, then awaits the reader; everything it
  does to the state comes after that \<open>await\<close>, so \<open>s\<close> is the state when the reader
  has finished.
\<close>

definition handleImageUpload :: "upload_file \<Rightarrow> app \<Rightarrow> effect list \<times> app" where
  "handleImageUpload f s =
     (if \<not> startsWith (file_type f) ''image/'' then
        ([Alert ''Please select an image file.''], s)
      else
        let img = fileToGenerativePart f in
        ([], updateUIState
               (s\<lparr>uploadedImage := Some img,
                  previewImage_src := ''data:'' @ mimeType img @ '';base64,'' @ js_str (base64 img),
                  previewImage_display := ''block'',
                  uploadPrompt_display := ''none'',
                  removeImageBtn_display := ''flex''\<rparr>)))"

definition handleRemoveImage :: "app \<Rightarrow> app" where
  "handleRemoveImage s =
     updateUIState
       (s\<lparr>uploadedImage := None,
          imageUploadInput_value := [],
          previewImage_src := [],
          previewImage_display := ''none'',
          uploadPrompt_display := ''flex'',
          removeImageBtn_display := ''none''\<rparr>)"

text \<open>
  The target of a click inside the gallery: the gallery element itself (not an \<open>IMG\<close>:
  the handler returns at once), or its child at an index. All children are \<open>IMG\<close>
  elements (\<open>initializeGallery\<close> creates nothing else). An index past the last child
  names no element, so no such click exists; the state is returned as it is.
\<close>

datatype click_target = GalleryItself | GalleryChild nat

text \<open>
  \<open>document.querySelector('.reference-img.selected')\<close> followed by
  \<open>classList.remove('selected')\<close>: only the first match loses the class.
\<close>

fun deselect_first :: "gallery_img list \<Rightarrow> gallery_img list" where
  "deselect_first [] = []"
| "deselect_first (g # gs) =
     (if img_selected g then g\<lparr>img_selected := False\<rparr> # gs else g # deselect_first gs)"

definition handleReferenceImageSelect :: "click_target \<Rightarrow> app \<Rightarrow> app" where
  "handleReferenceImageSelect target s =
     (case target of
        GalleryItself \<Rightarrow> s
      | GalleryChild i \<Rightarrow>
          if \<not> i < length (referenceGallery s) then s
          else
            let src = img_src (referenceGallery s ! i);
                cleared = deselect_first (referenceGallery s)
            in if selectedReferenceImage s = Some src then
                 s\<lparr>referenceGallery := cleared, selectedReferenceImage := None\<rparr>
               else
                 s\<lparr>referenceGallery := cleared[i := (cleared ! i)\<lparr>img_selected := True\<rparr>],
                   selectedReferenceImage := Some src\<rparr>)"

text \<open>
  What the submit handler is given from outside: how the fetch of the reference image
  and the call of the service settle (each resolves or rejects), and what other handlers
  do to the state while the submit handler is suspended at each of its two \<open>await\<close>s.
  The handler's local variables (\<open>contents\<close>, \<open>promptText\<close>) are out of their reach; the
  state it resumes in is the one they leave behind.
\<close>

record env =
  ref_fetch :: fetch_outcome
  service :: service_outcome
  while_fetching :: "app \<Rightarrow> app"
  while_generating :: "app \<Rightarrow> app"

definition inline_part :: "encoded \<Rightarrow> part" where
  "inline_part e =
     \<lparr>inlineData = Some \<lparr>data = base64 e, inline_mimeType = Some (mimeType e)\<rparr>,
      part_text = None\<rparr>"

definition text_part :: "string \<Rightarrow> part" where
  "text_part t = \<lparr>inlineData = None, part_text = Some t\<rparr>"

definition default_prompt :: string where
  "default_prompt = ''Apply the style of the second image to the first image.''"

definition thrown_message :: "thrown \<Rightarrow> string" where
  "thrown_message e = (case e of ErrorObj m \<Rightarrow> m | NonError \<Rightarrow> ''An unknown error occurred.'')"

text \<open>
  \<open>response.candidates?.[0]?.content?.parts?.find((part) => part.inlineData)?.inlineData\<close>
\<close>

definition find_image_part :: "response \<Rightarrow> inline_blob option" where
  "find_image_part r =
     (case candidates r of
        None \<Rightarrow> None
      | Some cs \<Rightarrow>
          (case js_index cs 0 of
             None \<Rightarrow> None
           | Some c \<Rightarrow>
               (case candidate_content c of
                  None \<Rightarrow> None
                | Some ct \<Rightarrow>
                    (case parts ct of
                       None \<Rightarrow> None
                     | Some ps \<Rightarrow>
                         (case find (\<lambda>p. inlineData p \<noteq> None) ps of
                            None \<Rightarrow> None
                          | Some p \<Rightarrow> inlineData p)))))"

text \<open>The \<open>catch\<close> block followed by the \<open>finally\<close> block.\<close>

definition generate_catch :: "thrown \<Rightarrow> app \<Rightarrow> effect list \<times> app" where
  "generate_catch e s = ([ConsoleError], setLoading False (displayError (thrown_message e) s))"

text \<open>The rest of the \<open>try\<close> block once the service has answered, then the \<open>finally\<close> block.\<close>

definition generate_on_response :: "response \<Rightarrow> app \<Rightarrow> app" where
  "generate_on_response r s =
     setLoading False
       (case find_image_part r of
          Some imagePart \<Rightarrow>
            s\<lparr>resultImage_src :=
                 ''data:'' @ js_str (inline_mimeType imagePart) @ '';base64,'' @ js_str (data imagePart),
              resultImage_display := ''block'',
              downloadBtn_display := ''flex''\<rparr>
        | None \<Rightarrow> displayError ''No image was generated. Please try a different prompt.'' s)"

text \<open>The call of the service with the assembled parts, and everything after it.\<close>

definition generate_call :: "env \<Rightarrow> part list \<Rightarrow> app \<Rightarrow> effect list \<times> app" where
  "generate_call ev contents s =
     (let call = GenerateContent
                   \<lparr>model = ''gemini-2.5-flash-image-preview'',
                    contents_parts = contents,
                    responseModalities = [IMAGE, TEXT]\<rparr>;
          s' = while_generating ev s
      in (case service ev of
            ServiceRejected e \<Rightarrow> (let (fx, t) = generate_catch e s' in (call # fx, t))
          | ServiceResolved r \<Rightarrow> ([call], generate_on_response r s')))"

definition handleGenerateClick :: "env \<Rightarrow> app \<Rightarrow> effect list \<times> app" where
  "handleGenerateClick ev s =
     (case uploadedImage s of
        None \<Rightarrow> ([Alert ''Please upload an image first.''], s)
      | Some img \<Rightarrow>
          if truthy_string (selectedReferenceImage s) = None \<and> js_trim (promptInput_value s) = []
          then ([Alert ''Please either select a style image or write a prompt.''], s)
          else
            let s1 = setLoading True s;
                contents = [inline_part img];
                promptText = js_trim (promptInput_value s1)
            in (case truthy_string (selectedReferenceImage s1) of
                  None \<Rightarrow> generate_call ev (contents @ [text_part promptText]) s1
                | Some url \<Rightarrow>
                    (let s2 = while_fetching ev s1
                     in (case urlToGenerativePart (ref_fetch ev) of
                           Inl e \<Rightarrow> (let (fx, t) = generate_catch e s2 in (Fetch url # fx, t))
                         | Inr refImagePart \<Rightarrow>
                             (let contents2 = contents @ [inline_part refImagePart];
                                  promptText2 = (if promptText = [] then default_prompt else promptText);
                                  (fx, t) = generate_call ev (contents2 @ [text_part promptText2]) s2
                              in (Fetch url # fx, t))))))"

section \<open>Initialization and the session\<close>

definition initializeGallery :: "app \<Rightarrow> app" where
  "initializeGallery s =
     s\<lparr>referenceGallery :=
         referenceGallery s @ map (\<lambda>src. \<lparr>img_src = src, img_selected = False\<rparr>) referenceImages\<rparr>"

definition initializeEventListeners :: "app \<Rightarrow> app" where
  "initializeEventListeners s = s\<lparr>listeners := True\<rparr>"

text \<open>\<open>main\<close>, given whether the constructor of the service client returns or throws.\<close>

definition main :: "bool \<Rightarrow> app \<Rightarrow> effect list \<times> app" where
  "main constructed s =
     (if \<not> constructed then
        ([ConsoleError],
         (displayError ''Could not initialize the AI service. Please check your API key setup.'' s)
           \<lparr>generateBtn_disabled := True, promptInput_disabled := True\<rparr>)
      else ([], updateUIState (initializeEventListeners (initializeGallery s))))"

text \<open>
  What the user can do on the page. A handler runs only if its listener was registered;
  a disabled button dispatches no click, and a disabled text area takes no input. (The
  download button and the drag-over highlight touch nothing of the state above.)
\<close>

datatype event =
    ChooseFile upload_file
  | ClickRemove
  | ClickGallery click_target
  | ClickGenerate env
  | TypePrompt string

definition dispatch :: "event \<Rightarrow> app \<Rightarrow> effect list \<times> app" where
  "dispatch e s =
     (case e of
        TypePrompt p \<Rightarrow> ([], if promptInput_disabled s then s else s\<lparr>promptInput_value := p\<rparr>)
      | ChooseFile f \<Rightarrow> if listeners s then handleImageUpload f s else ([], s)
      | ClickRemove \<Rightarrow> if listeners s then ([], handleRemoveImage s) else ([], s)
      | ClickGallery t \<Rightarrow> if listeners s then ([], handleReferenceImageSelect t s) else ([], s)
      | ClickGenerate ev \<Rightarrow>
          if listeners s \<and> \<not> generateBtn_disabled s then handleGenerateClick ev s else ([], s))"

fun session :: "event list \<Rightarrow> app \<Rightarrow> effect list \<times> app" where
  "session [] s = ([], s)"
| "session (e # es) s =
     (let (fx, s') = dispatch e s; (fx', s'') = session es s' in (fx @ fx', s''))"

section \<open>Reading a handler's effects\<close>

text \<open>The calls that leave the page: the fetch of a reference image and the call of the service.\<close>

definition is_network_call :: "effect \<Rightarrow> bool" where
  "is_network_call e = (case e of Fetch _ \<Rightarrow> True | GenerateContent _ \<Rightarrow> True | _ \<Rightarrow> False)"

text \<open>The requests sent to the service, in order.\<close>

fun sent_requests :: "effect list \<Rightarrow> request list" where
  "sent_requests [] = []"
| "sent_requests (GenerateContent r # fx) = r # sent_requests fx"
| "sent_requests (_ # fx) = sent_requests fx"

text \<open>The call \<open>ai.models.generateContent\<close> with the given parts.\<close>

definition service_request :: "part list \<Rightarrow> effect" where
  "service_request c =
     GenerateContent \<lparr>model = ''gemini-2.5-flash-image-preview'', contents_parts = c,
                      responseModalities = [IMAGE, TEXT]\<rparr>"

text \<open>At most one child of the gallery has the class \<open>selected\<close>.\<close>

definition at_most_one_selected :: "gallery_img list \<Rightarrow> bool" where
  "at_most_one_selected g = (length (filter img_selected g) \<le> 1)"

text \<open>
  \<open>response.candidates?.[0]?.content?.parts\<close>, with no parts where a link of the
  chain is \<open>undefined\<close>.
\<close>

definition first_candidate_parts :: "response \<Rightarrow> part list" where
  "first_candidate_parts r =
     (case candidates r of
        None \<Rightarrow> []
      | Some cs \<Rightarrow>
          (case js_index cs 0 of
             None \<Rightarrow> []
           | Some c \<Rightarrow>
               (case candidate_content c of
                  None \<Rightarrow> []
                | Some ct \<Rightarrow> (case parts ct of None \<Rightarrow> [] | Some ps \<Rightarrow> ps))))"

section \<open>Example states and environments\<close>

text \<open>
  The state when the module starts (both state variables \<open>null\<close>, no listener registered),
  for a page whose elements carry no inline style and whose inputs are empty.
\<close>

definition blank_page :: app where
  "blank_page =
     \<lparr>uploadedImage = None, selectedReferenceImage = None, referenceGallery = [],
      promptInput_value = [], promptInput_disabled = False, generateBtn_disabled = False,
      loader_display = [], resultPlaceholder_display = [], resultImage_display = [],
      resultImage_src = [], errorMessage_display = [], errorMessage_textContent = [],
      downloadBtn_display = [], previewImage_src = [], previewImage_display = [],
      uploadPrompt_display = [], removeImageBtn_display = [], imageUploadInput_value = [],
      listeners = False\<rparr>"

text \<open>The page after \<open>main\<close> has succeeded.\<close>

definition ready_page :: app where
  "ready_page = snd (main True blank_page)"

definition png_file :: upload_file where
  "png_file = \<lparr>file_type = ''image/png'', file_data_url = ''data:image/png;base64,QUJD''\<rparr>"

definition text_file :: upload_file where
  "text_file = \<lparr>file_type = ''text/plain'', file_data_url = ''data:text/plain;base64,aGk=''\<rparr>"

text \<open>The page after \<open>main\<close> has succeeded and the user has chosen \<open>png_file\<close>.\<close>

definition subject_page :: app where
  "subject_page = snd (handleImageUpload png_file (snd (main True blank_page)))"

text \<open>The same page with a prompt typed, and with the first reference image clicked.\<close>

definition prompted_page :: app where
  "prompted_page = subject_page\<lparr>promptInput_value := ''  make it gold ''\<rparr>"

definition styled_page :: app where
  "styled_page = handleReferenceImageSelect (GalleryChild 0) subject_page"

text \<open>An environment in which nothing else happens while the submit handler is suspended.\<close>

definition quiet_env :: "fetch_outcome \<Rightarrow> service_outcome \<Rightarrow> env" where
  "quiet_env f r = \<lparr>ref_fetch = f, service = r, while_fetching = (\<lambda>s. s), while_generating = (\<lambda>s. s)\<rparr>"

definition clay_fetched :: fetch_outcome where
  "clay_fetched = FetchResolved \<lparr>blob_type = ''image/png'', blob_data_url = ''data:image/png;base64,REVG''\<rparr>"

text \<open>An environment in which the user removes the subject image while the service is working.\<close>

definition removing_env :: "service_outcome \<Rightarrow> env" where
  "removing_env r = (quiet_env clay_fetched r)\<lparr>while_generating := handleRemoveImage\<rparr>"

definition image_response :: response where
  "image_response =
     \<lparr>candidates = Some
        [\<lparr>candidate_content = Some
            \<lparr>parts = Some
               [\<lparr>inlineData = None, part_text = Some ''Here you go''\<rparr>,
                \<lparr>inlineData = Some \<lparr>data = Some ''R0hJ'', inline_mimeType = Some ''image/png''\<rparr>,
                 part_text = None\<rparr>]\<rparr>\<rparr>]\<rparr>"

definition text_only_response :: response where
  "text_only_response =
     \<lparr>candidates = Some
        [\<lparr>candidate_content = Some
            \<lparr>parts = Some [\<lparr>inlineData = None, part_text = Some ''Sorry''\<rparr>]\<rparr>\<rparr>]\<rparr>"

text \<open>
  An environment in which, while the service is working, the user chooses a file and
  submits again, and that second submission resolves with an image before the first.
\<close>

definition resubmitting_env :: env where
  "resubmitting_env =
     \<lparr>ref_fetch = clay_fetched,
      service = ServiceResolved text_only_response,
      while_fetching = (\<lambda>s. s),
      while_generating =
        (\<lambda>s. snd (dispatch (ClickGenerate (quiet_env clay_fetched (ServiceResolved image_response)))
                    (snd (dispatch (ChooseFile png_file) s))))\<rparr>"

section \<open>Facts about the helpers\<close>

lemma trim_prefix_keeps:
  assumes "xs = [] \<or> \<not> P (hd xs)"
  shows "dropWhile P (rev (dropWhile P (rev xs))) = rev (dropWhile P (rev xs))"
proof (cases "rev (dropWhile P (rev xs)) = []")
  case True
  show ?thesis unfolding True by simp
next
  case False
  have "rev (takeWhile P (rev xs) @ dropWhile P (rev xs)) = xs"
    by (simp only: takeWhile_dropWhile_id rev_rev_ident)
  then have split: "xs = rev (dropWhile P (rev xs)) @ rev (takeWhile P (rev xs))"
    by (simp only: rev_append)
  from False split have "hd (rev (dropWhile P (rev xs))) = hd xs"
    by (metis hd_append2)
  moreover from False split have "xs \<noteq> []" by auto
  ultimately have "\<not> P (hd (rev (dropWhile P (rev xs))))" using assms by simp
  with False show ?thesis by (cases "rev (dropWhile P (rev xs))") auto
qed

lemma js_trim_front: "dropWhile js_whitespace (js_trim s) = js_trim s"
proof -
  have "dropWhile js_whitespace s = [] \<or> \<not> js_whitespace (hd (dropWhile js_whitespace s))"
    by (metis hd_dropWhile)
  then show ?thesis
    unfolding js_trim_def by (rule trim_prefix_keeps)
qed

lemma js_trim_idem: "js_trim (js_trim s) = js_trim s"
  using js_trim_front [of s] by (simp add: js_trim_def)

lemma js_trim_hd: "js_trim s \<noteq> [] \<Longrightarrow> \<not> js_whitespace (hd (js_trim s))"
  using js_trim_front [of s] by (metis hd_dropWhile)

lemma js_trim_last: "js_trim s \<noteq> [] \<Longrightarrow> \<not> js_whitespace (last (js_trim s))"
proof -
  assume ne: "js_trim s \<noteq> []"
  then have "dropWhile js_whitespace (rev (dropWhile js_whitespace s)) \<noteq> []"
    by (simp add: js_trim_def)
  then have "\<not> js_whitespace (hd (dropWhile js_whitespace (rev (dropWhile js_whitespace s))))"
    by (rule hd_dropWhile)
  then show ?thesis using ne
    by (simp add: js_trim_def last_rev)
qed

lemma js_trim_Nil: "js_trim [] = []"
  by (simp add: js_trim_def)

lemma dropWhile_all: "list_all P xs \<Longrightarrow> dropWhile P (xs @ ys) = dropWhile P ys"
  by (induction xs) auto

lemma dropWhile_keeps: "xs \<noteq> [] \<Longrightarrow> \<not> P (hd xs) \<Longrightarrow> dropWhile P (xs @ ys) = xs @ ys"
  by (cases xs) auto

lemma js_trim_decomposed:
  assumes "list_all js_whitespace pre" and "list_all js_whitespace post"
    and "core = [] \<or> (\<not> js_whitespace (hd core) \<and> \<not> js_whitespace (last core))"
  shows "js_trim (pre @ core @ post) = core"
proof (cases "core = []")
  case True
  from assms(2) have dw: "dropWhile js_whitespace post = []"
    by (simp add: list_all_iff)
  from assms(1) have "js_trim (pre @ post) = rev (dropWhile js_whitespace (rev (dropWhile js_whitespace post)))"
    by (simp only: js_trim_def dropWhile_all)
  also have "\<dots> = []"
    unfolding dw by simp
  finally show ?thesis
    using True by simp
next
  case False
  with assms(3) have ends: "\<not> js_whitespace (hd core)" "\<not> js_whitespace (last core)"
    by auto
  from assms(1) have "dropWhile js_whitespace (pre @ core @ post) = dropWhile js_whitespace (core @ post)"
    by (rule dropWhile_all)
  also from False ends(1) have "\<dots> = core @ post"
    by (rule dropWhile_keeps)
  finally have front: "dropWhile js_whitespace (pre @ core @ post) = core @ post" .
  from assms(2) have "list_all js_whitespace (rev post)"
    by (simp add: list_all_iff)
  then have "dropWhile js_whitespace (rev post @ rev core) = dropWhile js_whitespace (rev core @ [])"
    by (simp only: dropWhile_all) simp
  also from False ends(2) have "\<dots> = rev core @ []"
    by (intro dropWhile_keeps) (simp_all add: hd_rev)
  finally have rear: "dropWhile js_whitespace (rev post @ rev core) = rev core"
    by simp
  show ?thesis
    by (simp add: js_trim_def front rear)
qed

lemma js_trim_whitespace_only: "list_all js_whitespace w \<Longrightarrow> js_trim w = []"
  using js_trim_decomposed [of w "[]" "[]"] by simp

lemma every_prompt_decomposes:
  "\<exists>pre post. p = pre @ js_trim p @ post \<and> list_all js_whitespace pre \<and> list_all js_whitespace post
      \<and> (js_trim p = [] \<or> (\<not> js_whitespace (hd (js_trim p)) \<and> \<not> js_whitespace (last (js_trim p))))"
proof -
  let ?d = "dropWhile js_whitespace p"
  let ?post = "rev (takeWhile js_whitespace (rev ?d))"
  have "rev (takeWhile js_whitespace (rev ?d) @ dropWhile js_whitespace (rev ?d)) = ?d"
    by (simp only: takeWhile_dropWhile_id rev_rev_ident)
  then have d: "?d = js_trim p @ ?post"
    by (simp only: rev_append js_trim_def)
  have "p = takeWhile js_whitespace p @ ?d"
    by simp
  with d have "p = takeWhile js_whitespace p @ js_trim p @ ?post"
    by simp
  moreover have "list_all js_whitespace (takeWhile js_whitespace p)"
    by (simp add: list_all_iff) (meson set_takeWhileD)
  moreover have "list_all js_whitespace ?post"
    by (simp add: list_all_iff) (meson set_takeWhileD)
  moreover have "js_trim p = [] \<or> (\<not> js_whitespace (hd (js_trim p)) \<and> \<not> js_whitespace (last (js_trim p)))"
    using js_trim_hd js_trim_last by blast
  ultimately show ?thesis by blast
qed

lemma setLoading_False_fields:
  "loader_display (setLoading False t) = ''none''"
  "generateBtn_disabled (setLoading False t) = (uploadedImage t = None)"
  "uploadedImage (setLoading False t) = uploadedImage t"
  by (simp_all add: setLoading_def updateUIState_def)

lemma generate_call_ends_idle: "\<exists>t. snd (generate_call ev c s) = setLoading False t"
  by (cases "service ev")
     (auto simp: generate_call_def generate_catch_def generate_on_response_def Let_def)

lemma generate_call_effects:
  "fst (generate_call ev c s) =
     GenerateContent \<lparr>model = ''gemini-2.5-flash-image-preview'', contents_parts = c,
                      responseModalities = [IMAGE, TEXT]\<rparr>
     # (case service ev of ServiceRejected e \<Rightarrow> [ConsoleError] | ServiceResolved r \<Rightarrow> [])"
  by (cases "service ev") (simp_all add: generate_call_def generate_catch_def Let_def)

lemma handleGenerateClick_ends_idle:
  assumes "uploadedImage s \<noteq> None"
    and "truthy_string (selectedReferenceImage s) \<noteq> None \<or> js_trim (promptInput_value s) \<noteq> []"
  shows "\<exists>t. snd (handleGenerateClick ev s) = setLoading False t"
proof -
  from assms(1) obtain img where img: "uploadedImage s = Some img" by auto
  have sel: "selectedReferenceImage (setLoading True s) = selectedReferenceImage s"
    by (simp add: setLoading_def)
  show ?thesis
  proof (cases "truthy_string (selectedReferenceImage s)")
    case None
    with assms(2) img sel show ?thesis
      using generate_call_ends_idle
      by (simp add: handleGenerateClick_def Let_def)
  next
    case (Some url)
    show ?thesis
    proof (cases "urlToGenerativePart (ref_fetch ev)")
      case (Inl e)
      with Some img sel show ?thesis
        by (auto simp: handleGenerateClick_def Let_def generate_catch_def)
    next
      case (Inr refImagePart)
      with Some img sel show ?thesis
        using generate_call_ends_idle
        by (simp add: handleGenerateClick_def Let_def split_beta)
    qed
  qed
qed

lemma handleGenerateClick_effects:
  "fst (handleGenerateClick ev s) =
     (case uploadedImage s of
        None \<Rightarrow> [Alert ''Please upload an image first.'']
      | Some img \<Rightarrow>
          if truthy_string (selectedReferenceImage s) = None \<and> js_trim (promptInput_value s) = []
          then [Alert ''Please either select a style image or write a prompt.'']
          else
            (case truthy_string (selectedReferenceImage s) of
               None \<Rightarrow>
                 service_request [inline_part img, text_part (js_trim (promptInput_value s))]
                 # (case service ev of ServiceRejected e \<Rightarrow> [ConsoleError] | ServiceResolved r \<Rightarrow> [])
             | Some url \<Rightarrow>
                 Fetch url #
                 (case urlToGenerativePart (ref_fetch ev) of
                    Inl e \<Rightarrow> [ConsoleError]
                  | Inr refImagePart \<Rightarrow>
                      service_request
                        [inline_part img, inline_part refImagePart,
                         text_part (if js_trim (promptInput_value s) = [] then default_prompt
                                    else js_trim (promptInput_value s))]
                      # (case service ev of ServiceRejected e \<Rightarrow> [ConsoleError] | ServiceResolved r \<Rightarrow> []))))"
proof -
  have keep: "selectedReferenceImage (setLoading True s) = selectedReferenceImage s"
      "promptInput_value (setLoading True s) = promptInput_value s"
    by (simp_all add: setLoading_def)
  show ?thesis
  proof (cases "uploadedImage s")
    case None
    then show ?thesis by (simp add: handleGenerateClick_def)
  next
    case img: (Some img)
    show ?thesis
    proof (cases "truthy_string (selectedReferenceImage s)")
      case None
      with img show ?thesis
        by (simp add: handleGenerateClick_def Let_def keep generate_call_effects service_request_def)
    next
      case (Some url)
      with img show ?thesis
        by (cases "urlToGenerativePart (ref_fetch ev)")
           (simp_all add: handleGenerateClick_def Let_def keep split_beta generate_call_effects
              generate_catch_def service_request_def)
    qed
  qed
qed

lemma effects_through_trim:
  assumes "js_trim p = js_trim p'"
  shows "fst (handleGenerateClick ev (s\<lparr>promptInput_value := p\<rparr>))
           = fst (handleGenerateClick ev (s\<lparr>promptInput_value := p'\<rparr>))"
  by (auto simp: handleGenerateClick_effects assms split: option.split sum.split)

lemma default_prompt_clean:
  "default_prompt \<noteq> []"
  "\<not> js_whitespace (hd default_prompt)"
  "\<not> js_whitespace (last default_prompt)"
  by (simp_all add: default_prompt_def js_whitespace_def)

lemma deselect_first_length: "length (deselect_first g) = length g"
  by (induction g) auto

lemma deselect_first_src: "map img_src (deselect_first g) = map img_src g"
  by (induction g) auto

lemma deselect_first_clears:
  "at_most_one_selected g \<Longrightarrow> map img_selected (deselect_first g) = replicate (length g) False"
proof (induction g)
  case Nil
  then show ?case by simp
next
  case (Cons x xs)
  show ?case
  proof (cases "img_selected x")
    case True
    with Cons.prems have "filter img_selected xs = []"
      by (simp add: at_most_one_selected_def)
    then have "map img_selected xs = replicate (length xs) False"
      by (induction xs) (auto split: if_splits)
    with True show ?thesis by simp
  next
    case False
    with Cons.prems have "at_most_one_selected xs"
      by (simp add: at_most_one_selected_def)
    with Cons.IH False show ?thesis by simp
  qed
qed

lemma handleReferenceImageSelect_marks:
  assumes "i < length (referenceGallery s)" and "at_most_one_selected (referenceGallery s)"
  shows "map img_selected (referenceGallery (handleReferenceImageSelect (GalleryChild i) s))
                = (if selectedReferenceImage s = Some (img_src (referenceGallery s ! i))
                   then replicate (length (referenceGallery s)) False
                   else (replicate (length (referenceGallery s)) False)[i := True])"
  using assms
  by (simp add: handleReferenceImageSelect_def Let_def map_update deselect_first_clears)

lemma one_mark: "length (filter id ((replicate n False)[i := True])) \<le> 1"
proof (induction n arbitrary: i)
  case 0
  then show ?case by simp
next
  case (Suc n)
  show ?case
  proof (cases i)
    case 0
    then show ?thesis by simp
  next
    case (Suc j)
    with Suc.IH [of j] show ?thesis by simp
  qed
qed

lemma at_most_one_selected_kept:
  assumes "at_most_one_selected (referenceGallery s)"
  shows "at_most_one_selected (referenceGallery (handleReferenceImageSelect target s))"
proof (cases target)
  case GalleryItself
  with assms show ?thesis by (simp add: handleReferenceImageSelect_def)
next
  case (GalleryChild i)
  show ?thesis
  proof (cases "i < length (referenceGallery s)")
    case False
    with assms GalleryChild show ?thesis by (simp add: handleReferenceImageSelect_def)
  next
    case True
    let ?g = "referenceGallery (handleReferenceImageSelect (GalleryChild i) s)"
    have "length (filter img_selected ?g) = length (filter id (map img_selected ?g))"
      by (simp add: filter_map comp_def)
    also have "\<dots> \<le> 1"
      using one_mark [of "length (referenceGallery s)" i]
      by (simp add: handleReferenceImageSelect_marks [OF True assms])
    finally show ?thesis
      using GalleryChild by (simp add: at_most_one_selected_def)
  qed
qed

lemma at_most_one_selected_initially:
  "referenceGallery s = [] \<Longrightarrow> at_most_one_selected (referenceGallery (snd (main True s)))"
  by (simp add: main_def initializeGallery_def initializeEventListeners_def updateUIState_def
        at_most_one_selected_def filter_map comp_def)

lemma find_image_part_parts:
  "find_image_part r =
     (case find (\<lambda>p. inlineData p \<noteq> None) (first_candidate_parts r) of
        None \<Rightarrow> None
      | Some p \<Rightarrow> inlineData p)"
  by (simp add: find_image_part_def first_candidate_parts_def split: option.split)

lemma find_image_part_None:
  "find_image_part r = None \<longleftrightarrow> list_all (\<lambda>p. inlineData p = None) (first_candidate_parts r)"
proof -
  have "\<And>ps. (case find (\<lambda>p. inlineData p \<noteq> None) ps of None \<Rightarrow> None | Some p \<Rightarrow> inlineData p) = None
          \<longleftrightarrow> list_all (\<lambda>p. inlineData p = None) ps"
    subgoal for ps by (induction ps) auto
    done
  then show ?thesis by (simp only: find_image_part_parts)
qed

lemma find_image_part_first:
  assumes "first_candidate_parts r = pre @ p # post"
    and "list_all (\<lambda>q. inlineData q = None) pre"
    and "inlineData p = Some b"
  shows "find_image_part r = Some b"
proof -
  from assms(2) have "find (\<lambda>q. inlineData q \<noteq> None) (pre @ p # post) = find (\<lambda>q. inlineData q \<noteq> None) (p # post)"
    by (induction pre) auto
  with assms show ?thesis by (simp add: find_image_part_parts)
qed

lemma handleGenerateClick_resolved:
  assumes "uploadedImage s \<noteq> None"
    and "truthy_string (selectedReferenceImage s) \<noteq> None \<or> js_trim (promptInput_value s) \<noteq> []"
    and "truthy_string (selectedReferenceImage s) = None \<or> urlToGenerativePart (ref_fetch ev) = Inr refImagePart"
    and "service ev = ServiceResolved r"
  shows "snd (handleGenerateClick ev s) =
           generate_on_response r
             (while_generating ev
                (case truthy_string (selectedReferenceImage s) of
                   None \<Rightarrow> setLoading True s
                 | Some url \<Rightarrow> while_fetching ev (setLoading True s)))"
proof -
  from assms(1) obtain img where img: "uploadedImage s = Some img" by auto
  have keep: "selectedReferenceImage (setLoading True s) = selectedReferenceImage s"
    by (simp add: setLoading_def)
  show ?thesis
  proof (cases "truthy_string (selectedReferenceImage s)")
    case None
    with assms img keep show ?thesis
      by (simp add: handleGenerateClick_def Let_def generate_call_def)
  next
    case (Some url)
    with assms img keep show ?thesis
      by (simp add: handleGenerateClick_def Let_def generate_call_def split_beta)
  qed
qed

lemma dispatch_inert:
  "\<not> listeners s \<Longrightarrow> promptInput_disabled s \<Longrightarrow> dispatch e s = ([], s)"
  by (cases e) (simp_all add: dispatch_def)

lemma session_inert:
  "\<not> listeners s \<Longrightarrow> promptInput_disabled s \<Longrightarrow> session evs s = ([], s)"
  by (induction evs) (simp_all add: dispatch_inert)

lemma setLoading_False_result:
  "resultImage_src (setLoading False t) = resultImage_src t"
  "resultImage_display (setLoading False t) = resultImage_display t"
  "errorMessage_display (setLoading False t) = errorMessage_display t"
  "errorMessage_textContent (setLoading False t) = errorMessage_textContent t"
  by (simp_all add: setLoading_def updateUIState_def)

lemma generate_on_response_image:
  assumes "find_image_part r = Some b"
  shows "generate_on_response r t =
           setLoading False
             (t\<lparr>resultImage_src := ''data:'' @ js_str (inline_mimeType b) @ '';base64,'' @ js_str (data b),
                resultImage_display := ''block'',
                downloadBtn_display := ''flex''\<rparr>)"
  using assms by (simp add: generate_on_response_def)

lemma generate_on_response_empty:
  assumes "find_image_part r = None"
  shows "generate_on_response r t =
           setLoading False (displayError ''No image was generated. Please try a different prompt.'' t)"
  using assms by (simp add: generate_on_response_def)

lemma response_only_through_image_part:
  assumes "find_image_part r = find_image_part r'"
  shows "handleGenerateClick (ev\<lparr>service := ServiceResolved r\<rparr>) s
           = handleGenerateClick (ev\<lparr>service := ServiceResolved r'\<rparr>) s"
proof -
  have call: "\<And>c t. generate_call (ev\<lparr>service := ServiceResolved r\<rparr>) c t
                 = generate_call (ev\<lparr>service := ServiceResolved r'\<rparr>) c t"
    using assms by (simp add: generate_call_def generate_on_response_def)
  show ?thesis
    by (simp add: handleGenerateClick_def Let_def call
          cong: option.case_cong sum.case_cong if_cong)
qed

lemma other_handlers_leave_result:
  "resultImage_display (snd (handleImageUpload f t)) = resultImage_display t"
  "resultImage_display (handleRemoveImage t) = resultImage_display t"
  "resultImage_display (handleReferenceImageSelect c t) = resultImage_display t"
  by (simp_all add: handleImageUpload_def handleRemoveImage_def handleReferenceImageSelect_def
        updateUIState_def Let_def split: click_target.split)

section \<open>Facts about the example states\<close>

lemma page_examples:
  "uploadedImage subject_page = Some \<lparr>base64 = Some ''QUJD'', mimeType = ''image/png''\<rparr>"
  "selectedReferenceImage subject_page = None"
  "promptInput_value subject_page = []"
  "listeners subject_page"
  "\<not> generateBtn_disabled subject_page"
  by (simp_all add: subject_page_def main_def blank_page_def handleImageUpload_def png_file_def
        startsWith_def fileToGenerativePart_def data_url_payload_def js_index_def
        updateUIState_def initializeEventListeners_def initializeGallery_def Let_def)

lemma ready_page_fields:
  "uploadedImage ready_page = None"
  by (simp_all add: ready_page_def main_def blank_page_def
        updateUIState_def initializeEventListeners_def initializeGallery_def)

lemma prompted_page_fields:
  "uploadedImage prompted_page = Some \<lparr>base64 = Some ''QUJD'', mimeType = ''image/png''\<rparr>"
  "selectedReferenceImage prompted_page = None"
  "js_trim (promptInput_value prompted_page) = ''make it gold''"
  by (simp_all add: prompted_page_def page_examples js_trim_def js_whitespace_def)

lemma styled_page_fields:
  "uploadedImage styled_page = Some \<lparr>base64 = Some ''QUJD'', mimeType = ''image/png''\<rparr>"
  "selectedReferenceImage styled_page =
     Some ''https://storage.googleapis.com/maker-suite-media/user-prompt-images/style-transfer-clay.png''"
  "promptInput_value styled_page = []"
  by (simp_all add: styled_page_def handleReferenceImageSelect_def Let_def
        subject_page_def main_def blank_page_def handleImageUpload_def png_file_def
        startsWith_def fileToGenerativePart_def data_url_payload_def js_index_def
        updateUIState_def initializeEventListeners_def initializeGallery_def referenceImages_def)

lemma prompted_page_prompt: "promptInput_value prompted_page = ''  '' @ ''make it gold'' @ '' ''"
  by (simp add: prompted_page_def)

lemma styled_page_prompt: "promptInput_value styled_page = [] @ [] @ []"
  by (simp add: styled_page_fields)

lemma clay_part:
  "urlToGenerativePart clay_fetched = Inr \<lparr>base64 = Some ''REVG'', mimeType = ''image/png''\<rparr>"
  by (simp add: urlToGenerativePart_def clay_fetched_def data_url_payload_def js_index_def)

lemma subject_page_gallery:
  "referenceGallery subject_page = map (\<lambda>src. \<lparr>img_src = src, img_selected = False\<rparr>) referenceImages"
  by (simp add: subject_page_def main_def blank_page_def handleImageUpload_def png_file_def
        startsWith_def updateUIState_def initializeEventListeners_def initializeGallery_def Let_def)

lemma styled_page_gallery:
  "img_src (referenceGallery styled_page ! 0)
     = ''https://storage.googleapis.com/maker-suite-media/user-prompt-images/style-transfer-clay.png''"
  "0 < length (referenceGallery styled_page)"
  by (simp_all add: styled_page_def handleReferenceImageSelect_def Let_def subject_page_gallery
        page_examples referenceImages_def)

section \<open>Upload\<close>

text \<open>
  C9. A file whose declared media type does not start with \<open>image/\<close> is rejected with an
  alert, and the handler returns the state it was given: the uploaded image (or its
  absence), the reference selection and the preview are as before.
\<close>

theorem upload_rejects_non_image:
  "\<not> startsWith (file_type f) ''image/'' \<Longrightarrow>
   handleImageUpload f s = ([Alert ''Please select an image file.''], s)"
  by (simp add: handleImageUpload_def)

theorem upload_rejects_non_image_witness:
  "\<not> startsWith (file_type text_file) ''image/''
   \<and> handleImageUpload text_file subject_page = ([Alert ''Please select an image file.''], subject_page)"
  using upload_rejects_non_image [of text_file subject_page]
  by (simp add: startsWith_def text_file_def)

section \<open>Submit: validation\<close>

text \<open>
  C2. The submit handler issues a network call (the fetch of the reference image or the
  call of the service) exactly when a subject image is present and a reference image is
  selected or the trimmed prompt is non-empty. With no subject image, or with a subject
  image but neither of the two, it alerts a validation message, issues nothing, and
  returns the state it was given.
\<close>

theorem submit_validation:
  "(list_ex is_network_call (fst (handleGenerateClick ev s))
      \<longleftrightarrow> uploadedImage s \<noteq> None \<and>
          (truthy_string (selectedReferenceImage s) \<noteq> None \<or> js_trim (promptInput_value s) \<noteq> []))
   \<and> (uploadedImage s = None
        \<longrightarrow> handleGenerateClick ev s = ([Alert ''Please upload an image first.''], s))
   \<and> (uploadedImage s \<noteq> None \<and> truthy_string (selectedReferenceImage s) = None
         \<and> js_trim (promptInput_value s) = []
        \<longrightarrow> handleGenerateClick ev s
              = ([Alert ''Please either select a style image or write a prompt.''], s))"
proof (intro conjI impI)
  show "list_ex is_network_call (fst (handleGenerateClick ev s))
      \<longleftrightarrow> uploadedImage s \<noteq> None \<and>
          (truthy_string (selectedReferenceImage s) \<noteq> None \<or> js_trim (promptInput_value s) \<noteq> [])"
    by (auto simp: handleGenerateClick_effects service_request_def is_network_call_def
           split: option.split sum.split)
next
  assume "uploadedImage s = None"
  then show "handleGenerateClick ev s = ([Alert ''Please upload an image first.''], s)"
    by (simp add: handleGenerateClick_def)
next
  assume "uploadedImage s \<noteq> None \<and> truthy_string (selectedReferenceImage s) = None
         \<and> js_trim (promptInput_value s) = []"
  then show "handleGenerateClick ev s
              = ([Alert ''Please either select a style image or write a prompt.''], s)"
    by (auto simp: handleGenerateClick_def)
qed

theorem submit_validation_witness:
  "uploadedImage ready_page = None
   \<and> handleGenerateClick (quiet_env clay_fetched (ServiceResolved image_response)) ready_page
       = ([Alert ''Please upload an image first.''], ready_page)
   \<and> \<not> list_ex is_network_call
          (fst (handleGenerateClick (quiet_env clay_fetched (ServiceResolved image_response)) ready_page))
   \<and> uploadedImage subject_page \<noteq> None
   \<and> truthy_string (selectedReferenceImage subject_page) = None
   \<and> js_trim (promptInput_value subject_page) = []
   \<and> handleGenerateClick (quiet_env clay_fetched (ServiceResolved image_response)) subject_page
       = ([Alert ''Please either select a style image or write a prompt.''], subject_page)
   \<and> js_trim (promptInput_value prompted_page) \<noteq> []
   \<and> list_ex is_network_call
        (fst (handleGenerateClick (quiet_env clay_fetched (ServiceResolved image_response)) prompted_page))"
proof -
  let ?ev = "quiet_env clay_fetched (ServiceResolved image_response)"
  have a: "uploadedImage ready_page = None" by (rule ready_page_fields)
  have b: "uploadedImage subject_page \<noteq> None \<and> truthy_string (selectedReferenceImage subject_page) = None
     \<and> js_trim (promptInput_value subject_page) = []"
    by (simp add: page_examples truthy_string_def js_trim_Nil)
  have c: "uploadedImage prompted_page \<noteq> None \<and> js_trim (promptInput_value prompted_page) \<noteq> []"
    by (simp add: prompted_page_fields)
  from a b c submit_validation [of ?ev ready_page] submit_validation [of ?ev subject_page]
    submit_validation [of ?ev prompted_page]
  show ?thesis by (simp add: is_network_call_def)
qed

section \<open>Submit: the request\<close>

text \<open>
  In the three statements that follow the prompt is written \<open>pre @ core @ post\<close>, with
  \<open>pre\<close> and \<open>post\<close> made of whitespace and \<open>core\<close> empty or with a first and a last
  character that are not whitespace. Every prompt has exactly such a reading
  (\<open>every_prompt_decomposes\<close>), and \<open>core\<close> is then what \<open>trim\<close> returns
  (\<open>js_trim_decomposed\<close>).
\<close>

text \<open>
  C1. For a submission that passes validation, the request sent to the service has, in
  this order: the part whose inline data is the uploaded subject image, then, exactly
  when a reference image is selected, the part whose inline data is the fetched reference
  image, then one part that has text and no inline data. That is two parts without a
  reference image and three with one. (With a reference image selected, a request goes
  out only once its fetch has resolved.)
\<close>

theorem request_part_order:
  assumes "uploadedImage s = Some img"
    and "promptInput_value s = pre @ core @ post"
    and "list_all js_whitespace pre" and "list_all js_whitespace post"
    and "core = [] \<or> (\<not> js_whitespace (hd core) \<and> \<not> js_whitespace (last core))"
    and "truthy_string (selectedReferenceImage s) \<noteq> None \<or> core \<noteq> []"
  shows "map contents_parts (sent_requests (fst (handleGenerateClick ev s))) =
     (case truthy_string (selectedReferenceImage s) of
        None \<Rightarrow>
          [[\<lparr>inlineData = Some \<lparr>data = base64 img, inline_mimeType = Some (mimeType img)\<rparr>,
             part_text = None\<rparr>,
            \<lparr>inlineData = None, part_text = Some core\<rparr>]]
      | Some url \<Rightarrow>
          (case urlToGenerativePart (ref_fetch ev) of
             Inl e \<Rightarrow> []
           | Inr refImagePart \<Rightarrow>
               [[\<lparr>inlineData = Some \<lparr>data = base64 img, inline_mimeType = Some (mimeType img)\<rparr>,
                  part_text = None\<rparr>,
                 \<lparr>inlineData =
                    Some \<lparr>data = base64 refImagePart, inline_mimeType = Some (mimeType refImagePart)\<rparr>,
                  part_text = None\<rparr>,
                 \<lparr>inlineData = None,
                  part_text =
                    Some (if core = [] then ''Apply the style of the second image to the first image.''
                          else core)\<rparr>]]))"
proof -
  have tr: "js_trim (promptInput_value s) = core"
    using assms(2-5) by (simp only: js_trim_decomposed)
  from assms(1,6) show ?thesis
    by (auto simp: handleGenerateClick_effects tr service_request_def inline_part_def text_part_def
          default_prompt_def split: option.split sum.split service_outcome.split)
qed

theorem request_part_order_witness:
  "uploadedImage prompted_page = Some \<lparr>base64 = Some ''QUJD'', mimeType = ''image/png''\<rparr>
   \<and> promptInput_value prompted_page = ''  '' @ ''make it gold'' @ '' ''
   \<and> list_all js_whitespace ''  '' \<and> list_all js_whitespace '' ''
   \<and> \<not> js_whitespace (hd ''make it gold'') \<and> \<not> js_whitespace (last ''make it gold'')
   \<and> truthy_string (selectedReferenceImage prompted_page) = None
   \<and> map contents_parts
         (sent_requests (fst (handleGenerateClick
            (quiet_env clay_fetched (ServiceResolved image_response)) prompted_page)))
       = [[\<lparr>inlineData = Some \<lparr>data = Some ''QUJD'', inline_mimeType = Some ''image/png''\<rparr>,
            part_text = None\<rparr>,
           \<lparr>inlineData = None, part_text = Some ''make it gold''\<rparr>]]
   \<and> uploadedImage styled_page = Some \<lparr>base64 = Some ''QUJD'', mimeType = ''image/png''\<rparr>
   \<and> promptInput_value styled_page = []
   \<and> truthy_string (selectedReferenceImage styled_page) \<noteq> None
   \<and> urlToGenerativePart (ref_fetch (quiet_env clay_fetched (ServiceResolved image_response)))
       = Inr \<lparr>base64 = Some ''REVG'', mimeType = ''image/png''\<rparr>
   \<and> map contents_parts
         (sent_requests (fst (handleGenerateClick
            (quiet_env clay_fetched (ServiceResolved image_response)) styled_page)))
       = [[\<lparr>inlineData = Some \<lparr>data = Some ''QUJD'', inline_mimeType = Some ''image/png''\<rparr>,
            part_text = None\<rparr>,
           \<lparr>inlineData = Some \<lparr>data = Some ''REVG'', inline_mimeType = Some ''image/png''\<rparr>,
            part_text = None\<rparr>,
           \<lparr>inlineData = None,
            part_text = Some ''Apply the style of the second image to the first image.''\<rparr>]]"
proof -
  let ?ev = "quiet_env clay_fetched (ServiceResolved image_response)"
  have p1: "uploadedImage prompted_page = Some \<lparr>base64 = Some ''QUJD'', mimeType = ''image/png''\<rparr>"
    by (rule prompted_page_fields)
  have ws: "list_all js_whitespace ''  ''" "list_all js_whitespace '' ''" "list_all js_whitespace []"
    by (simp_all add: js_whitespace_def)
  have ends: "\<not> js_whitespace (hd ''make it gold'') \<and> \<not> js_whitespace (last ''make it gold'')"
    by (simp add: js_whitespace_def)
  have p2: "truthy_string (selectedReferenceImage prompted_page) = None"
    by (simp add: prompted_page_fields truthy_string_def)
  have q1: "uploadedImage styled_page = Some \<lparr>base64 = Some ''QUJD'', mimeType = ''image/png''\<rparr>"
    by (rule styled_page_fields)
  have q2: "truthy_string (selectedReferenceImage styled_page) \<noteq> None"
    by (simp add: styled_page_fields truthy_string_def)
  have q3: "urlToGenerativePart (ref_fetch ?ev) = Inr \<lparr>base64 = Some ''REVG'', mimeType = ''image/png''\<rparr>"
    by (simp add: quiet_env_def clay_part)
  have a: "map contents_parts (sent_requests (fst (handleGenerateClick ?ev prompted_page)))
       = [[\<lparr>inlineData = Some \<lparr>data = Some ''QUJD'', inline_mimeType = Some ''image/png''\<rparr>,
            part_text = None\<rparr>,
           \<lparr>inlineData = None, part_text = Some ''make it gold''\<rparr>]]"
    using request_part_order [OF p1 prompted_page_prompt ws(1) ws(2) disjI2 [OF ends], of ?ev] p2
    by simp
  have b: "map contents_parts (sent_requests (fst (handleGenerateClick ?ev styled_page)))
       = [[\<lparr>inlineData = Some \<lparr>data = Some ''QUJD'', inline_mimeType = Some ''image/png''\<rparr>,
            part_text = None\<rparr>,
           \<lparr>inlineData = Some \<lparr>data = Some ''REVG'', inline_mimeType = Some ''image/png''\<rparr>,
            part_text = None\<rparr>,
           \<lparr>inlineData = None,
            part_text = Some ''Apply the style of the second image to the first image.''\<rparr>]]"
    using request_part_order [OF q1 styled_page_prompt ws(3) ws(3) disjI1 [OF refl] disjI1 [OF q2], of ?ev]
      q2 q3
    by (auto split: option.splits)
  from p1 prompted_page_prompt ws ends p2 a q1 styled_page_fields(3) q2 q3 b show ?thesis
    by blast
qed

text \<open>
  C3. With a reference image selected and a prompt that is empty or all whitespace, the
  text of the request's only text part is the fixed default instruction
  \<open>Apply the style of the second image to the first image.\<close>; with a prompt that has a
  non-empty core, the text is that core.
\<close>

theorem request_text_part:
  assumes "uploadedImage s = Some img"
    and "promptInput_value s = pre @ core @ post"
    and "list_all js_whitespace pre" and "list_all js_whitespace post"
    and "core = [] \<or> (\<not> js_whitespace (hd core) \<and> \<not> js_whitespace (last core))"
  shows "(truthy_string (selectedReferenceImage s) = Some url \<and> core = []
            \<and> urlToGenerativePart (ref_fetch ev) = Inr refImagePart
          \<longrightarrow> map (\<lambda>r. filter (\<lambda>q. part_text q \<noteq> None) (contents_parts r))
                  (sent_requests (fst (handleGenerateClick ev s)))
                = [[\<lparr>inlineData = None,
                     part_text = Some ''Apply the style of the second image to the first image.''\<rparr>]])
       \<and> (core \<noteq> []
            \<and> (truthy_string (selectedReferenceImage s) = None
                 \<or> urlToGenerativePart (ref_fetch ev) = Inr refImagePart)
          \<longrightarrow> map (\<lambda>r. filter (\<lambda>q. part_text q \<noteq> None) (contents_parts r))
                  (sent_requests (fst (handleGenerateClick ev s)))
                = [[\<lparr>inlineData = None, part_text = Some core\<rparr>]])"
proof -
  have tr: "js_trim (promptInput_value s) = core"
    using assms(2-5) by (simp only: js_trim_decomposed)
  from assms(1) show ?thesis
    by (auto simp: handleGenerateClick_effects tr service_request_def inline_part_def text_part_def
          default_prompt_def split: option.split sum.split service_outcome.split)
qed

theorem request_text_part_witness:
  "uploadedImage styled_page = Some \<lparr>base64 = Some ''QUJD'', mimeType = ''image/png''\<rparr>
   \<and> promptInput_value styled_page = []
   \<and> truthy_string (selectedReferenceImage styled_page)
       = Some ''https://storage.googleapis.com/maker-suite-media/user-prompt-images/style-transfer-clay.png''
   \<and> urlToGenerativePart (ref_fetch (quiet_env clay_fetched (ServiceResolved image_response)))
       = Inr \<lparr>base64 = Some ''REVG'', mimeType = ''image/png''\<rparr>
   \<and> map (\<lambda>r. filter (\<lambda>q. part_text q \<noteq> None) (contents_parts r))
         (sent_requests (fst (handleGenerateClick
            (quiet_env clay_fetched (ServiceResolved image_response)) styled_page)))
       = [[\<lparr>inlineData = None,
            part_text = Some ''Apply the style of the second image to the first image.''\<rparr>]]
   \<and> uploadedImage prompted_page = Some \<lparr>base64 = Some ''QUJD'', mimeType = ''image/png''\<rparr>
   \<and> promptInput_value prompted_page = ''  '' @ ''make it gold'' @ '' ''
   \<and> list_all js_whitespace ''  '' \<and> list_all js_whitespace '' ''
   \<and> \<not> js_whitespace (hd ''make it gold'') \<and> \<not> js_whitespace (last ''make it gold'')
   \<and> truthy_string (selectedReferenceImage prompted_page) = None
   \<and> map (\<lambda>r. filter (\<lambda>q. part_text q \<noteq> None) (contents_parts r))
         (sent_requests (fst (handleGenerateClick
            (quiet_env clay_fetched (ServiceResolved image_response)) prompted_page)))
       = [[\<lparr>inlineData = None, part_text = Some ''make it gold''\<rparr>]]"
proof -
  let ?ev = "quiet_env clay_fetched (ServiceResolved image_response)"
  let ?clay = "''https://storage.googleapis.com/maker-suite-media/user-prompt-images/style-transfer-clay.png''"
  let ?ref = "\<lparr>base64 = Some ''REVG'', mimeType = ''image/png''\<rparr>"
  have ws: "list_all js_whitespace ''  ''" "list_all js_whitespace '' ''" "list_all js_whitespace []"
    by (simp_all add: js_whitespace_def)
  have ends: "\<not> js_whitespace (hd ''make it gold'') \<and> \<not> js_whitespace (last ''make it gold'')"
    by (simp add: js_whitespace_def)
  have q2: "truthy_string (selectedReferenceImage styled_page) = Some ?clay"
    by (simp add: styled_page_fields truthy_string_def)
  have q3: "urlToGenerativePart (ref_fetch ?ev) = Inr ?ref"
    by (simp add: quiet_env_def clay_part)
  have p2: "truthy_string (selectedReferenceImage prompted_page) = None"
    by (simp add: prompted_page_fields truthy_string_def)
  have a: "map (\<lambda>r. filter (\<lambda>q. part_text q \<noteq> None) (contents_parts r))
         (sent_requests (fst (handleGenerateClick ?ev styled_page)))
       = [[\<lparr>inlineData = None,
            part_text = Some ''Apply the style of the second image to the first image.''\<rparr>]]"
    using request_text_part [OF styled_page_fields(1) styled_page_prompt ws(3) ws(3) disjI1 [OF refl],
            where url = ?clay and ev = ?ev and refImagePart = ?ref] q2 q3
    by simp
  have b: "map (\<lambda>r. filter (\<lambda>q. part_text q \<noteq> None) (contents_parts r))
         (sent_requests (fst (handleGenerateClick ?ev prompted_page)))
       = [[\<lparr>inlineData = None, part_text = Some ''make it gold''\<rparr>]]"
    using request_text_part [OF prompted_page_fields(1) prompted_page_prompt ws(1) ws(2) disjI2 [OF ends],
            where url = ?clay and ev = ?ev and refImagePart = ?ref] p2
    by simp
  from styled_page_fields(1,3) q2 q3 a prompted_page_fields(1) prompted_page_prompt ws ends p2 b
  show ?thesis by blast
qed

text \<open>
  C10. The prompt is used without its surrounding whitespace: the handler's effects for
  \<open>pre @ core @ post\<close> are those for \<open>core\<close>, and the text sent is \<open>core\<close>. A prompt
  made of whitespace only has the effects of the empty prompt: without a reference image
  it fails validation, with one it sends the default instruction. No text part sent to
  the service is empty or starts or ends with whitespace.
\<close>

theorem prompt_trimmed:
  assumes "list_all js_whitespace pre" and "list_all js_whitespace post"
    and "core = [] \<or> (\<not> js_whitespace (hd core) \<and> \<not> js_whitespace (last core))"
    and "list_all js_whitespace w"
  shows "fst (handleGenerateClick ev (s\<lparr>promptInput_value := pre @ core @ post\<rparr>))
           = fst (handleGenerateClick ev (s\<lparr>promptInput_value := core\<rparr>))
       \<and> (core \<noteq> [] \<and> uploadedImage s \<noteq> None
            \<and> (truthy_string (selectedReferenceImage s) = None
                 \<or> urlToGenerativePart (ref_fetch ev) = Inr refImagePart)
          \<longrightarrow> map (\<lambda>r. filter (\<lambda>q. part_text q \<noteq> None) (contents_parts r))
                  (sent_requests (fst (handleGenerateClick ev (s\<lparr>promptInput_value := pre @ core @ post\<rparr>))))
                = [[\<lparr>inlineData = None, part_text = Some core\<rparr>]])
       \<and> fst (handleGenerateClick ev (s\<lparr>promptInput_value := w\<rparr>))
           = fst (handleGenerateClick ev (s\<lparr>promptInput_value := []\<rparr>))
       \<and> (uploadedImage s \<noteq> None \<and> truthy_string (selectedReferenceImage s) = None
          \<longrightarrow> handleGenerateClick ev (s\<lparr>promptInput_value := w\<rparr>)
                = ([Alert ''Please either select a style image or write a prompt.''],
                   s\<lparr>promptInput_value := w\<rparr>))
       \<and> (uploadedImage s \<noteq> None \<and> truthy_string (selectedReferenceImage s) = Some url
            \<and> urlToGenerativePart (ref_fetch ev) = Inr refImagePart
          \<longrightarrow> map (\<lambda>r. filter (\<lambda>q. part_text q \<noteq> None) (contents_parts r))
                  (sent_requests (fst (handleGenerateClick ev (s\<lparr>promptInput_value := w\<rparr>))))
                = [[\<lparr>inlineData = None,
                     part_text = Some ''Apply the style of the second image to the first image.''\<rparr>]])
       \<and> list_all
            (\<lambda>r. list_all
                    (\<lambda>q. case part_text q of
                            None \<Rightarrow> True
                          | Some t \<Rightarrow> t \<noteq> [] \<and> \<not> js_whitespace (hd t) \<and> \<not> js_whitespace (last t))
                    (contents_parts r))
            (sent_requests (fst (handleGenerateClick ev s)))"
proof -
  have tr: "js_trim (pre @ core @ post) = core"
    using assms(1-3) by (rule js_trim_decomposed)
  have tc: "js_trim core = core"
    using js_trim_decomposed [of "[]" "[]" core] assms(3) by simp
  have tw: "js_trim w = []"
    using assms(4) by (rule js_trim_whitespace_only)
  have c1: "fst (handleGenerateClick ev (s\<lparr>promptInput_value := pre @ core @ post\<rparr>))
           = fst (handleGenerateClick ev (s\<lparr>promptInput_value := core\<rparr>))"
    by (rule effects_through_trim) (simp only: tr tc)
  have c2: "map (\<lambda>r. filter (\<lambda>q. part_text q \<noteq> None) (contents_parts r))
                  (sent_requests (fst (handleGenerateClick ev (s\<lparr>promptInput_value := pre @ core @ post\<rparr>))))
                = [[\<lparr>inlineData = None, part_text = Some core\<rparr>]]"
    if "core \<noteq> [] \<and> uploadedImage s \<noteq> None
            \<and> (truthy_string (selectedReferenceImage s) = None
                 \<or> urlToGenerativePart (ref_fetch ev) = Inr refImagePart)"
    using that
    by (auto simp: handleGenerateClick_effects tr service_request_def inline_part_def text_part_def
          split: option.split sum.split service_outcome.split)
  have c3: "fst (handleGenerateClick ev (s\<lparr>promptInput_value := w\<rparr>))
           = fst (handleGenerateClick ev (s\<lparr>promptInput_value := []\<rparr>))"
    by (rule effects_through_trim) (simp only: tw js_trim_Nil)
  have c4: "handleGenerateClick ev (s\<lparr>promptInput_value := w\<rparr>)
                = ([Alert ''Please either select a style image or write a prompt.''],
                   s\<lparr>promptInput_value := w\<rparr>)"
    if "uploadedImage s \<noteq> None \<and> truthy_string (selectedReferenceImage s) = None"
    using that by (auto simp: handleGenerateClick_def tw)
  have c5: "map (\<lambda>r. filter (\<lambda>q. part_text q \<noteq> None) (contents_parts r))
                  (sent_requests (fst (handleGenerateClick ev (s\<lparr>promptInput_value := w\<rparr>))))
                = [[\<lparr>inlineData = None,
                     part_text = Some ''Apply the style of the second image to the first image.''\<rparr>]]"
    if "uploadedImage s \<noteq> None \<and> truthy_string (selectedReferenceImage s) = Some url
            \<and> urlToGenerativePart (ref_fetch ev) = Inr refImagePart"
    using that
    by (auto simp: handleGenerateClick_effects tw service_request_def inline_part_def text_part_def
          default_prompt_def split: option.split sum.split service_outcome.split)
  have c6: "list_all
            (\<lambda>r. list_all
                    (\<lambda>q. case part_text q of
                            None \<Rightarrow> True
                          | Some t \<Rightarrow> t \<noteq> [] \<and> \<not> js_whitespace (hd t) \<and> \<not> js_whitespace (last t))
                    (contents_parts r))
            (sent_requests (fst (handleGenerateClick ev s)))"
    by (auto simp: handleGenerateClick_effects service_request_def
          text_part_def inline_part_def default_prompt_clean js_trim_hd js_trim_last
          split: option.split sum.split service_outcome.split)
  from c1 c2 c3 c4 c5 c6 show ?thesis by blast
qed

theorem prompt_trimmed_witness:
  "list_all js_whitespace ''  '' \<and> list_all js_whitespace '' ''
   \<and> \<not> js_whitespace (hd ''make it gold'') \<and> \<not> js_whitespace (last ''make it gold'')
   \<and> list_all js_whitespace [CHR 0x20, CHR 0x09, CHR 0x0A]
   \<and> fst (handleGenerateClick (quiet_env clay_fetched (ServiceResolved image_response))
          (subject_page\<lparr>promptInput_value := ''  '' @ ''make it gold'' @ '' ''\<rparr>))
       = fst (handleGenerateClick (quiet_env clay_fetched (ServiceResolved image_response))
          (subject_page\<lparr>promptInput_value := ''make it gold''\<rparr>))
   \<and> uploadedImage subject_page \<noteq> None
   \<and> truthy_string (selectedReferenceImage subject_page) = None
   \<and> map (\<lambda>r. filter (\<lambda>q. part_text q \<noteq> None) (contents_parts r))
         (sent_requests (fst (handleGenerateClick (quiet_env clay_fetched (ServiceResolved image_response))
            (subject_page\<lparr>promptInput_value := ''  '' @ ''make it gold'' @ '' ''\<rparr>))))
       = [[\<lparr>inlineData = None, part_text = Some ''make it gold''\<rparr>]]
   \<and> handleGenerateClick (quiet_env clay_fetched (ServiceResolved image_response))
        (subject_page\<lparr>promptInput_value := [CHR 0x20, CHR 0x09, CHR 0x0A]\<rparr>)
       = ([Alert ''Please either select a style image or write a prompt.''],
          subject_page\<lparr>promptInput_value := [CHR 0x20, CHR 0x09, CHR 0x0A]\<rparr>)
   \<and> uploadedImage styled_page \<noteq> None
   \<and> truthy_string (selectedReferenceImage styled_page)
       = Some ''https://storage.googleapis.com/maker-suite-media/user-prompt-images/style-transfer-clay.png''
   \<and> urlToGenerativePart (ref_fetch (quiet_env clay_fetched (ServiceResolved image_response)))
       = Inr \<lparr>base64 = Some ''REVG'', mimeType = ''image/png''\<rparr>
   \<and> map (\<lambda>r. filter (\<lambda>q. part_text q \<noteq> None) (contents_parts r))
         (sent_requests (fst (handleGenerateClick (quiet_env clay_fetched (ServiceResolved image_response))
            (styled_page\<lparr>promptInput_value := [CHR 0x20, CHR 0x09, CHR 0x0A]\<rparr>))))
       = [[\<lparr>inlineData = None,
            part_text = Some ''Apply the style of the second image to the first image.''\<rparr>]]"
proof -
  let ?ev = "quiet_env clay_fetched (ServiceResolved image_response)"
  let ?clay = "''https://storage.googleapis.com/maker-suite-media/user-prompt-images/style-transfer-clay.png''"
  let ?ref = "\<lparr>base64 = Some ''REVG'', mimeType = ''image/png''\<rparr>"
  let ?w = "[CHR 0x20, CHR 0x09, CHR 0x0A]"
  have ws: "list_all js_whitespace ''  ''" "list_all js_whitespace '' ''" "list_all js_whitespace ?w"
    by (simp_all add: js_whitespace_def)
  have ends: "\<not> js_whitespace (hd ''make it gold'') \<and> \<not> js_whitespace (last ''make it gold'')"
    by (simp add: js_whitespace_def)
  have sub: "uploadedImage subject_page \<noteq> None \<and> truthy_string (selectedReferenceImage subject_page) = None"
    by (simp add: page_examples truthy_string_def)
  have sty: "uploadedImage styled_page \<noteq> None \<and> truthy_string (selectedReferenceImage styled_page) = Some ?clay"
    by (simp add: styled_page_fields truthy_string_def)
  have ref: "urlToGenerativePart (ref_fetch ?ev) = Inr ?ref"
    by (simp add: quiet_env_def clay_part)
  note a = prompt_trimmed [OF ws(1) ws(2) disjI2 [OF ends] ws(3),
             where ev = ?ev and s = subject_page and url = ?clay and refImagePart = ?ref]
  note b = prompt_trimmed [OF ws(1) ws(2) disjI2 [OF ends] ws(3),
             where ev = ?ev and s = styled_page and url = ?clay and refImagePart = ?ref]
  from a have a1: "fst (handleGenerateClick ?ev
          (subject_page\<lparr>promptInput_value := ''  '' @ ''make it gold'' @ '' ''\<rparr>))
       = fst (handleGenerateClick ?ev (subject_page\<lparr>promptInput_value := ''make it gold''\<rparr>))"
    by blast
  from a sub have a2: "map (\<lambda>r. filter (\<lambda>q. part_text q \<noteq> None) (contents_parts r))
         (sent_requests (fst (handleGenerateClick ?ev
            (subject_page\<lparr>promptInput_value := ''  '' @ ''make it gold'' @ '' ''\<rparr>))))
       = [[\<lparr>inlineData = None, part_text = Some ''make it gold''\<rparr>]]"
    by blast
  from a sub have a4: "handleGenerateClick ?ev (subject_page\<lparr>promptInput_value := ?w\<rparr>)
       = ([Alert ''Please either select a style image or write a prompt.''],
          subject_page\<lparr>promptInput_value := ?w\<rparr>)"
    by blast
  from b sty ref have b5: "map (\<lambda>r. filter (\<lambda>q. part_text q \<noteq> None) (contents_parts r))
         (sent_requests (fst (handleGenerateClick ?ev (styled_page\<lparr>promptInput_value := ?w\<rparr>))))
       = [[\<lparr>inlineData = None,
            part_text = Some ''Apply the style of the second image to the first image.''\<rparr>]]"
    by blast
  from ws ends sub sty ref a1 a2 a4 b5 show ?thesis
    by blast
qed

section \<open>Submit: the response\<close>

text \<open>
  C7. Only the first candidate of a response is inspected, and within it the first part
  that has inline data is the one rendered: replacing the later candidates, or the parts
  after that one, changes nothing the handler does.
\<close>

theorem first_image_part_only:
  "handleGenerateClick (ev\<lparr>service := ServiceResolved \<lparr>candidates = Some (c # cs)\<rparr>\<rparr>) s
     = handleGenerateClick (ev\<lparr>service := ServiceResolved \<lparr>candidates = Some [c]\<rparr>\<rparr>) s
   \<and> (first_candidate_parts r = pre @ p # post \<and> list_all (\<lambda>q. inlineData q = None) pre
        \<and> inlineData p = Some b
       \<longrightarrow> generate_on_response r t =
             setLoading False
               (t\<lparr>resultImage_src := ''data:'' @ js_str (inline_mimeType b) @ '';base64,'' @ js_str (data b),
                  resultImage_display := ''block'',
                  downloadBtn_display := ''flex''\<rparr>))
   \<and> (uploadedImage s \<noteq> None
        \<and> (truthy_string (selectedReferenceImage s) \<noteq> None \<or> js_trim (promptInput_value s) \<noteq> [])
        \<and> (truthy_string (selectedReferenceImage s) = None
             \<or> urlToGenerativePart (ref_fetch ev) = Inr refImagePart)
        \<and> service ev = ServiceResolved r
        \<and> first_candidate_parts r = pre @ p # post \<and> list_all (\<lambda>q. inlineData q = None) pre
        \<and> inlineData p = Some b
       \<longrightarrow> resultImage_src (snd (handleGenerateClick ev s))
               = ''data:'' @ js_str (inline_mimeType b) @ '';base64,'' @ js_str (data b)
           \<and> resultImage_display (snd (handleGenerateClick ev s)) = ''block'')"
proof (intro conjI impI)
  have "find_image_part \<lparr>candidates = Some (c # cs)\<rparr> = find_image_part \<lparr>candidates = Some [c]\<rparr>"
    by (simp add: find_image_part_def js_index_def)
  then show "handleGenerateClick (ev\<lparr>service := ServiceResolved \<lparr>candidates = Some (c # cs)\<rparr>\<rparr>) s
     = handleGenerateClick (ev\<lparr>service := ServiceResolved \<lparr>candidates = Some [c]\<rparr>\<rparr>) s"
    by (rule response_only_through_image_part)
next
  assume "first_candidate_parts r = pre @ p # post \<and> list_all (\<lambda>q. inlineData q = None) pre
        \<and> inlineData p = Some b"
  then have "find_image_part r = Some b"
    using find_image_part_first by blast
  then show "generate_on_response r t =
             setLoading False
               (t\<lparr>resultImage_src := ''data:'' @ js_str (inline_mimeType b) @ '';base64,'' @ js_str (data b),
                  resultImage_display := ''block'',
                  downloadBtn_display := ''flex''\<rparr>)"
    by (rule generate_on_response_image)
next
  assume a: "uploadedImage s \<noteq> None
        \<and> (truthy_string (selectedReferenceImage s) \<noteq> None \<or> js_trim (promptInput_value s) \<noteq> [])
        \<and> (truthy_string (selectedReferenceImage s) = None
             \<or> urlToGenerativePart (ref_fetch ev) = Inr refImagePart)
        \<and> service ev = ServiceResolved r
        \<and> first_candidate_parts r = pre @ p # post \<and> list_all (\<lambda>q. inlineData q = None) pre
        \<and> inlineData p = Some b"
  then have img: "find_image_part r = Some b"
    using find_image_part_first by blast
  from a obtain t where "snd (handleGenerateClick ev s) = generate_on_response r t"
    using handleGenerateClick_resolved by blast
  then have fin: "snd (handleGenerateClick ev s) =
             setLoading False
               (t\<lparr>resultImage_src := ''data:'' @ js_str (inline_mimeType b) @ '';base64,'' @ js_str (data b),
                  resultImage_display := ''block'',
                  downloadBtn_display := ''flex''\<rparr>)"
    by (simp only: generate_on_response_image [OF img])
  show "resultImage_src (snd (handleGenerateClick ev s))
               = ''data:'' @ js_str (inline_mimeType b) @ '';base64,'' @ js_str (data b)"
    by (simp add: fin setLoading_False_result)
  show "resultImage_display (snd (handleGenerateClick ev s)) = ''block''"
    by (simp add: fin setLoading_False_result)
qed

theorem first_image_part_only_witness:
  "first_candidate_parts image_response
     = [\<lparr>inlineData = None, part_text = Some ''Here you go''\<rparr>]
       @ \<lparr>inlineData = Some \<lparr>data = Some ''R0hJ'', inline_mimeType = Some ''image/png''\<rparr>,
          part_text = None\<rparr> # []
   \<and> uploadedImage prompted_page \<noteq> None
   \<and> js_trim (promptInput_value prompted_page) \<noteq> []
   \<and> truthy_string (selectedReferenceImage prompted_page) = None
   \<and> resultImage_src (snd (handleGenerateClick
         (quiet_env clay_fetched (ServiceResolved image_response)) prompted_page))
       = ''data:image/png;base64,R0hJ''
   \<and> resultImage_display (snd (handleGenerateClick
         (quiet_env clay_fetched (ServiceResolved image_response)) prompted_page)) = ''block''"
proof -
  let ?ev = "quiet_env clay_fetched (ServiceResolved image_response)"
  let ?b = "\<lparr>data = Some ''R0hJ'', inline_mimeType = Some ''image/png''\<rparr>"
  let ?p = "\<lparr>inlineData = Some ?b, part_text = None\<rparr>"
  let ?pre = "[\<lparr>inlineData = None, part_text = Some ''Here you go''\<rparr>]"
  have a: "first_candidate_parts image_response = ?pre @ ?p # []"
    by (simp add: first_candidate_parts_def image_response_def js_index_def)
  have b: "uploadedImage prompted_page \<noteq> None \<and> js_trim (promptInput_value prompted_page) \<noteq> []
     \<and> truthy_string (selectedReferenceImage prompted_page) = None"
    by (simp add: prompted_page_fields truthy_string_def)
  have c: "service ?ev = ServiceResolved image_response"
    by (simp add: quiet_env_def)
  from a b c
    first_image_part_only [where ev = ?ev and s = prompted_page and r = image_response
                             and pre = ?pre and p = ?p and post = "[]" and b = ?b]
  show ?thesis
    by (simp add: js_str_def)
qed

text \<open>
  When no part of the response's first candidate has inline data, the handler ends with
  the empty-result error message displayed. The result image was hidden when the
  submission started and the handler does not show it again: it is still hidden at the
  end if nothing that ran while the handler was suspended has displayed it.
\<close>

lemma empty_result_error_undisturbed:
  assumes "uploadedImage s \<noteq> None"
    and "truthy_string (selectedReferenceImage s) \<noteq> None \<or> js_trim (promptInput_value s) \<noteq> []"
    and "truthy_string (selectedReferenceImage s) = None
           \<or> urlToGenerativePart (ref_fetch ev) = Inr refImagePart"
    and "service ev = ServiceResolved r"
    and "list_all (\<lambda>p. inlineData p = None) (first_candidate_parts r)"
  shows "errorMessage_display (snd (handleGenerateClick ev s)) = ''block''
       \<and> errorMessage_textContent (snd (handleGenerateClick ev s))
           = ''Error: No image was generated. Please try a different prompt.''
       \<and> ((\<forall>t. resultImage_display (while_fetching ev t) = resultImage_display t)
            \<and> (\<forall>t. resultImage_display (while_generating ev t) = resultImage_display t)
          \<longrightarrow> resultImage_display (snd (handleGenerateClick ev s)) = ''none'')"
proof -
  let ?t = "while_generating ev
                (case truthy_string (selectedReferenceImage s) of
                   None \<Rightarrow> setLoading True s
                 | Some url \<Rightarrow> while_fetching ev (setLoading True s))"
  from assms(5) have none: "find_image_part r = None"
    by (simp only: find_image_part_None)
  have "snd (handleGenerateClick ev s) = generate_on_response r ?t"
    using assms(1-4) by (rule handleGenerateClick_resolved)
  then have fin: "snd (handleGenerateClick ev s) =
      setLoading False (displayError ''No image was generated. Please try a different prompt.'' ?t)"
    by (simp only: generate_on_response_empty [OF none])
  have shown: "errorMessage_display (snd (handleGenerateClick ev s)) = ''block''"
    by (simp add: fin setLoading_False_result displayError_def)
  have msg: "errorMessage_textContent (snd (handleGenerateClick ev s))
           = ''Error: No image was generated. Please try a different prompt.''"
    by (simp add: fin setLoading_False_result displayError_def)
  have hidden: "resultImage_display (snd (handleGenerateClick ev s)) = ''none''"
    if "(\<forall>t. resultImage_display (while_fetching ev t) = resultImage_display t)
            \<and> (\<forall>t. resultImage_display (while_generating ev t) = resultImage_display t)"
  proof -
    have "resultImage_display (setLoading True s) = ''none''"
      by (simp add: setLoading_def)
    with that have "resultImage_display ?t = ''none''"
      by (simp split: option.split)
    then show ?thesis
      by (simp add: fin setLoading_False_result displayError_def)
  qed
  from shown msg hidden show ?thesis by blast
qed

text \<open>
  C5. A response whose first candidate has no part with image data should leave the
  empty-result error displayed and no result image displayed. The code does the first
  always and the second not always. \<open>setLoading(true)\<close> hides the result image and
  disables the generate button, but \<open>updateUIState\<close>, which \<open>handleImageUpload\<close> calls,
  enables the button again whenever an image is uploaded, also while a submission is
  pending. So a second submission can start and finish during the first one's \<open>await\<close>.
  Here the user submits, chooses a file and submits again; the second submission
  resolves with an image, then the first resolves with text only: the first ends with
  the empty-result error displayed and the result image displayed beside it.
\<close>

theorem second_submission_keeps_image_with_error:
  "list_all (\<lambda>p. inlineData p = None) (first_candidate_parts text_only_response)
   \<and> listeners prompted_page \<and> \<not> generateBtn_disabled prompted_page
   \<and> generateBtn_disabled (setLoading True prompted_page)
   \<and> \<not> generateBtn_disabled (snd (dispatch (ChooseFile png_file) (setLoading True prompted_page)))
   \<and> errorMessage_display (snd (dispatch (ClickGenerate resubmitting_env) prompted_page)) = ''block''
   \<and> errorMessage_textContent (snd (dispatch (ClickGenerate resubmitting_env) prompted_page))
       = ''Error: No image was generated. Please try a different prompt.''
   \<and> resultImage_display (snd (dispatch (ClickGenerate resubmitting_env) prompted_page)) = ''block''
   \<and> resultImage_src (snd (dispatch (ClickGenerate resubmitting_env) prompted_page))
       = ''data:image/png;base64,R0hJ''"
proof -
  let ?inner = "quiet_env clay_fetched (ServiceResolved image_response)"
  have page: "listeners prompted_page" "\<not> generateBtn_disabled prompted_page"
    by (simp_all add: prompted_page_def page_examples)
  have parts: "list_all (\<lambda>p. inlineData p = None) (first_candidate_parts text_only_response)"
    by (simp add: first_candidate_parts_def text_only_response_def js_index_def)
  have none: "find_image_part text_only_response = None"
    using parts by (simp only: find_image_part_None)
  have some: "find_image_part image_response
                = Some \<lparr>data = Some ''R0hJ'', inline_mimeType = Some ''image/png''\<rparr>"
    by (simp add: find_image_part_def image_response_def js_index_def)
  let ?s1 = "setLoading True prompted_page"
  let ?s2 = "snd (dispatch (ChooseFile png_file) ?s1)"
  let ?s3 = "snd (dispatch (ClickGenerate ?inner) ?s2)"
  have busy: "generateBtn_disabled ?s1"
    by (simp add: setLoading_def)
  have s2: "listeners ?s2" "\<not> generateBtn_disabled ?s2" "uploadedImage ?s2 \<noteq> None"
      "truthy_string (selectedReferenceImage ?s2) = None"
      "js_trim (promptInput_value ?s2) \<noteq> []"
    by (simp_all add: dispatch_def page handleImageUpload_def png_file_def startsWith_def
          setLoading_def updateUIState_def Let_def prompted_page_fields truthy_string_def)
  have "?s3 = snd (handleGenerateClick ?inner ?s2)"
    using s2(1,2) by (simp add: dispatch_def)
  also have "\<dots> = generate_on_response image_response
                      (while_generating ?inner (setLoading True ?s2))"
    using handleGenerateClick_resolved [OF s2(3) disjI2 [OF s2(5)] disjI1 [OF s2(4)],
            where ev = ?inner and r = image_response] s2(4)
    by (simp add: quiet_env_def)
  finally have s3: "resultImage_display ?s3 = ''block''"
      "resultImage_src ?s3 = ''data:image/png;base64,R0hJ''"
    by (simp_all add: generate_on_response_image [OF some] setLoading_False_result js_str_def)
  have outer: "uploadedImage prompted_page \<noteq> None"
      "truthy_string (selectedReferenceImage prompted_page) = None"
      "js_trim (promptInput_value prompted_page) \<noteq> []"
    by (simp_all add: prompted_page_fields truthy_string_def)
  have "snd (dispatch (ClickGenerate resubmitting_env) prompted_page)
          = snd (handleGenerateClick resubmitting_env prompted_page)"
    using page by (simp add: dispatch_def)
  also have "\<dots> = generate_on_response text_only_response ?s3"
    using handleGenerateClick_resolved [OF outer(1) disjI2 [OF outer(3)] disjI1 [OF outer(2)],
            where ev = resubmitting_env and r = text_only_response] outer(2)
    by (simp add: resubmitting_env_def)
  also have "\<dots> = setLoading False
                      (displayError ''No image was generated. Please try a different prompt.'' ?s3)"
    by (rule generate_on_response_empty [OF none])
  finally have fin: "snd (dispatch (ClickGenerate resubmitting_env) prompted_page)
      = setLoading False (displayError ''No image was generated. Please try a different prompt.'' ?s3)" .
  have e1: "errorMessage_display (snd (dispatch (ClickGenerate resubmitting_env) prompted_page)) = ''block''"
    by (simp add: fin setLoading_False_result displayError_def)
  have e2: "errorMessage_textContent (snd (dispatch (ClickGenerate resubmitting_env) prompted_page))
       = ''Error: No image was generated. Please try a different prompt.''"
    by (simp add: fin setLoading_False_result displayError_def)
  have e3: "resultImage_display (snd (dispatch (ClickGenerate resubmitting_env) prompted_page)) = ''block''"
    by (simp add: fin setLoading_False_result displayError_def s3)
  have e4: "resultImage_src (snd (dispatch (ClickGenerate resubmitting_env) prompted_page))
       = ''data:image/png;base64,R0hJ''"
    by (simp add: fin setLoading_False_result displayError_def s3)
  from parts page busy s2(2) e1 e2 e3 e4 show ?thesis by blast
qed

text \<open>
  C6. A submission that passes validation ends, however the fetch and the service settle
  and whatever happened meanwhile, with the loader hidden and the generate button enabled
  exactly when a subject image is present at that moment. A submission that fails
  validation returns the state it was given.
\<close>

theorem busy_state_cleared:
  "(uploadedImage s \<noteq> None \<and>
      (truthy_string (selectedReferenceImage s) \<noteq> None \<or> js_trim (promptInput_value s) \<noteq> [])
    \<longrightarrow> loader_display (snd (handleGenerateClick ev s)) = ''none'' \<and>
        generateBtn_disabled (snd (handleGenerateClick ev s))
          = (uploadedImage (snd (handleGenerateClick ev s)) = None))
   \<and> (\<not> (uploadedImage s \<noteq> None \<and>
      (truthy_string (selectedReferenceImage s) \<noteq> None \<or> js_trim (promptInput_value s) \<noteq> []))
    \<longrightarrow> snd (handleGenerateClick ev s) = s)"
proof (intro conjI impI)
  assume ok: "uploadedImage s \<noteq> None \<and>
      (truthy_string (selectedReferenceImage s) \<noteq> None \<or> js_trim (promptInput_value s) \<noteq> [])"
  then obtain t where t: "snd (handleGenerateClick ev s) = setLoading False t"
    using handleGenerateClick_ends_idle by blast
  show "loader_display (snd (handleGenerateClick ev s)) = ''none''"
    by (simp only: t setLoading_False_fields)
  show "generateBtn_disabled (snd (handleGenerateClick ev s))
          = (uploadedImage (snd (handleGenerateClick ev s)) = None)"
    by (simp only: t setLoading_False_fields)
next
  assume "\<not> (uploadedImage s \<noteq> None \<and>
      (truthy_string (selectedReferenceImage s) \<noteq> None \<or> js_trim (promptInput_value s) \<noteq> []))"
  then show "snd (handleGenerateClick ev s) = s"
    by (auto simp: handleGenerateClick_def split: option.splits)
qed

theorem busy_state_cleared_witness:
  "uploadedImage prompted_page \<noteq> None
   \<and> js_trim (promptInput_value prompted_page) \<noteq> []
   \<and> loader_display (snd (handleGenerateClick
         (quiet_env clay_fetched (ServiceResolved image_response)) prompted_page)) = ''none''
   \<and> \<not> generateBtn_disabled (snd (handleGenerateClick
         (quiet_env clay_fetched (ServiceResolved image_response)) prompted_page))
   \<and> loader_display (snd (handleGenerateClick
         (removing_env (ServiceRejected (ErrorObj ''Failed to fetch''))) prompted_page)) = ''none''
   \<and> generateBtn_disabled (snd (handleGenerateClick
         (removing_env (ServiceRejected (ErrorObj ''Failed to fetch''))) prompted_page))
   \<and> uploadedImage ready_page = None
   \<and> snd (handleGenerateClick (quiet_env clay_fetched (ServiceResolved image_response)) ready_page)
       = ready_page"
proof -
  let ?ok = "quiet_env clay_fetched (ServiceResolved image_response)"
  let ?rm = "removing_env (ServiceRejected (ErrorObj ''Failed to fetch''))"
  have h: "uploadedImage prompted_page \<noteq> None \<and> js_trim (promptInput_value prompted_page) \<noteq> []"
    by (simp add: prompted_page_fields)
  have kept: "uploadedImage (snd (handleGenerateClick ?ok prompted_page)) \<noteq> None"
    by (simp add: handleGenerateClick_def prompted_page_fields truthy_string_def Let_def
          generate_call_def quiet_env_def generate_on_response_def setLoading_def
          updateUIState_def displayError_def split: option.split)
  have gone: "uploadedImage (snd (handleGenerateClick ?rm prompted_page)) = None"
    by (simp add: handleGenerateClick_def prompted_page_fields truthy_string_def Let_def
          generate_call_def quiet_env_def removing_env_def generate_catch_def setLoading_def
          updateUIState_def displayError_def handleRemoveImage_def)
  from h kept gone busy_state_cleared [of prompted_page ?ok] busy_state_cleared [of prompted_page ?rm]
    busy_state_cleared [of ready_page ?ok] ready_page_fields
  show ?thesis by simp
qed

section \<open>Reference gallery\<close>

text \<open>
  C4. Clicking the gallery image that is the current selection clears the selection.
  Clicking an image that is not the current selection makes it the selection, whatever
  was selected before, and clicking it once more clears the selection again. When at most
  one image carried the class \<open>selected\<close> before the click, afterwards that class is on
  the clicked image alone, or on none if the click cleared the selection.
\<close>

theorem reference_toggle:
  assumes "i < length (referenceGallery s)"
  shows "(selectedReferenceImage s = Some (img_src (referenceGallery s ! i))
          \<longrightarrow> selectedReferenceImage (handleReferenceImageSelect (GalleryChild i) s) = None)
       \<and> (selectedReferenceImage s \<noteq> Some (img_src (referenceGallery s ! i))
          \<longrightarrow> selectedReferenceImage (handleReferenceImageSelect (GalleryChild i) s)
                 = Some (img_src (referenceGallery s ! i))
              \<and> selectedReferenceImage
                   (handleReferenceImageSelect (GalleryChild i)
                      (handleReferenceImageSelect (GalleryChild i) s)) = None)
       \<and> (at_most_one_selected (referenceGallery s)
          \<longrightarrow> map img_selected (referenceGallery (handleReferenceImageSelect (GalleryChild i) s))
                = (if selectedReferenceImage s = Some (img_src (referenceGallery s ! i))
                   then replicate (length (referenceGallery s)) False
                   else (replicate (length (referenceGallery s)) False)[i := True]))"
proof (intro conjI impI)
  assume "selectedReferenceImage s = Some (img_src (referenceGallery s ! i))"
  with assms show "selectedReferenceImage (handleReferenceImageSelect (GalleryChild i) s) = None"
    by (simp add: handleReferenceImageSelect_def Let_def)
next
  assume other: "selectedReferenceImage s \<noteq> Some (img_src (referenceGallery s ! i))"
  let ?s' = "handleReferenceImageSelect (GalleryChild i) s"
  from assms other show sel: "selectedReferenceImage ?s' = Some (img_src (referenceGallery s ! i))"
    by (simp add: handleReferenceImageSelect_def Let_def)
  from assms other have len: "length (referenceGallery ?s') = length (referenceGallery s)"
    by (simp add: handleReferenceImageSelect_def Let_def deselect_first_length)
  let ?cleared = "deselect_first (referenceGallery s)"
  from assms other have gal: "referenceGallery ?s' = ?cleared[i := (?cleared ! i)\<lparr>img_selected := True\<rparr>]"
    by (simp add: handleReferenceImageSelect_def Let_def)
  from assms have "img_src (referenceGallery ?s' ! i) = img_src (?cleared ! i)"
    by (simp add: gal deselect_first_length)
  also from assms have "\<dots> = map img_src ?cleared ! i"
    by (simp add: deselect_first_length)
  also from assms have "\<dots> = img_src (referenceGallery s ! i)"
    by (simp add: deselect_first_src)
  finally have src: "img_src (referenceGallery ?s' ! i) = img_src (referenceGallery s ! i)" .
  from assms len sel src show "selectedReferenceImage (handleReferenceImageSelect (GalleryChild i) ?s') = None"
    by (simp add: handleReferenceImageSelect_def [of _ ?s'] Let_def)
next
  assume one: "at_most_one_selected (referenceGallery s)"
  with assms show "map img_selected (referenceGallery (handleReferenceImageSelect (GalleryChild i) s))
                = (if selectedReferenceImage s = Some (img_src (referenceGallery s ! i))
                   then replicate (length (referenceGallery s)) False
                   else (replicate (length (referenceGallery s)) False)[i := True])"
    by (rule handleReferenceImageSelect_marks)
qed

theorem reference_toggle_witness:
  "0 < length (referenceGallery subject_page)
   \<and> selectedReferenceImage subject_page \<noteq> Some (img_src (referenceGallery subject_page ! 0))
   \<and> selectedReferenceImage (handleReferenceImageSelect (GalleryChild 0) subject_page)
       = Some ''https://storage.googleapis.com/maker-suite-media/user-prompt-images/style-transfer-clay.png''
   \<and> selectedReferenceImage
        (handleReferenceImageSelect (GalleryChild 0)
           (handleReferenceImageSelect (GalleryChild 0) subject_page)) = None
   \<and> at_most_one_selected (referenceGallery subject_page)
   \<and> map img_selected (referenceGallery (handleReferenceImageSelect (GalleryChild 0) subject_page))
       = [True, False, False, False, False, False, False, False]
   \<and> selectedReferenceImage styled_page = Some (img_src (referenceGallery styled_page ! 0))
   \<and> selectedReferenceImage (handleReferenceImageSelect (GalleryChild 0) styled_page) = None"
proof -
  have a: "0 < length (referenceGallery subject_page)"
    by (simp add: subject_page_gallery referenceImages_def)
  have b: "selectedReferenceImage subject_page \<noteq> Some (img_src (referenceGallery subject_page ! 0))"
    by (simp add: page_examples)
  have c: "at_most_one_selected (referenceGallery subject_page)"
    by (simp add: subject_page_gallery referenceImages_def at_most_one_selected_def)
  have d: "selectedReferenceImage styled_page = Some (img_src (referenceGallery styled_page ! 0))"
    by (simp add: styled_page_fields styled_page_gallery)
  have src: "img_src (referenceGallery subject_page ! 0)
     = ''https://storage.googleapis.com/maker-suite-media/user-prompt-images/style-transfer-clay.png''"
    by (simp add: subject_page_gallery referenceImages_def)
  have len: "length (referenceGallery subject_page) = 8"
    by (simp add: subject_page_gallery referenceImages_def)
  have rep: "(replicate 8 False)[0 := True] = [True, False, False, False, False, False, False, False]"
    by (simp add: numeral_eq_Suc)
  from a b c d reference_toggle [OF a] reference_toggle [OF styled_page_gallery(2)]
  show ?thesis
    by (simp add: src len rep)
qed

section \<open>Initialization failure\<close>

text \<open>
  C8. If the service client cannot be constructed, \<open>main\<close> leaves the generate button and
  the prompt input disabled and the setup error displayed, and registers no listener:
  whatever the user does afterwards changes nothing and causes no effect, in particular
  no network call.
\<close>

theorem init_failure_disables:
  assumes "\<not> listeners s0"
  shows "generateBtn_disabled (snd (main False s0))
       \<and> promptInput_disabled (snd (main False s0))
       \<and> errorMessage_display (snd (main False s0)) = ''block''
       \<and> errorMessage_textContent (snd (main False s0))
           = ''Error: Could not initialize the AI service. Please check your API key setup.''
       \<and> session evs (snd (main False s0)) = ([], snd (main False s0))"
proof -
  have off: "\<not> listeners (snd (main False s0))"
    using assms by (simp add: main_def displayError_def setLoading_def updateUIState_def)
  have dis: "promptInput_disabled (snd (main False s0))"
    by (simp add: main_def)
  from off dis have "session evs (snd (main False s0)) = ([], snd (main False s0))"
    by (rule session_inert)
  then show ?thesis
    by (simp add: main_def displayError_def setLoading_def updateUIState_def)
qed

theorem init_failure_disables_witness:
  "\<not> listeners blank_page
   \<and> generateBtn_disabled (snd (main False blank_page))
   \<and> promptInput_disabled (snd (main False blank_page))
   \<and> errorMessage_textContent (snd (main False blank_page))
       = ''Error: Could not initialize the AI service. Please check your API key setup.''
   \<and> session [ChooseFile png_file, TypePrompt ''make it gold'', ClickGallery (GalleryChild 0),
               ClickGenerate (quiet_env clay_fetched (ServiceResolved image_response))]
        (snd (main False blank_page))
       = ([], snd (main False blank_page))"
proof -
  have a: "\<not> listeners blank_page"
    by (simp add: blank_page_def)
  from a init_failure_disables [OF a] show ?thesis by simp
qed

end
